theory Spec2Isabelle
  imports Main "HOL-Library.Word"
begin

section \<open>alertmanager-discord: the relay of main.go\<close>

text \<open>
  The development follows the current main.go (the second listing of the file, the one with
  \<open>MaxDiscordEmbed\<close>): the data model, \<open>getSeverityColor\<close>, \<open>valueConv\<close>, the body of the
  per-alert loop of \<open>sendWebhook\<close>, the bulk send, \<open>fireMessageOut\<close>,
  \<open>sendRawPromAlertWarn\<close> and the HTTP handler of \<open>main\<close>.

  Go strings are byte sequences: \<open>string\<close> here is a list of 8-bit characters, and the
  non-ASCII literals of the source are written as their UTF-8 bytes.
\<close>

subsection \<open>Constants\<close>

definition MaxDiscordEmbed :: nat where "MaxDiscordEmbed = 10"
definition ColorRed :: int where "ColorRed = 0x992D22"
definition ColorOrange :: int where "ColorOrange = 0xF0B816"
definition ColorGreen :: int where "ColorGreen = 0x2ECC71"
definition ColorGrey :: int where "ColorGrey = 0x95A5A6"
definition ColorBlue :: int where "ColorBlue = 0x58b9ff"

subsection \<open>The data model\<close>

text \<open>
  \<open>Labels\<close> is a Go \<open>map[string]string\<close>. A \<open>range\<close> over it visits every entry once, in
  an order Go leaves unspecified: the association list holds the entries in the order the
  loop visits them, its keys are distinct, and a lookup \<open>alert.Labels[k]\<close> is \<open>map_of\<close>.
\<close>

record Annotations_t =
  Description :: string
  Summary :: string

record alertManAlert =
  Annotations :: Annotations_t
  EndsAt :: string
  GeneratorURL :: string
  Labels :: "(string \<times> string) list"
  StartsAt :: string
  Status :: string

record alertManOut =
  Alerts :: "alertManAlert list"
  CommonAnnotations_Summary :: string
  CommonLabels_Alertname :: string
  ExternalURL :: string
  GroupKey :: string
  GroupLabels_Alertname :: string
  Receiver :: string
  Status_group :: string
  Version :: string

record discordEmbedField =
  Name :: string
  Value :: string

record discordEmbed =
  Title :: string
  Description_embed :: string
  Color :: int
  Fields :: "discordEmbedField list"

record discordOut =
  Content :: string
  Embeds :: "discordEmbed list"

subsection \<open>The pieces of package strings the code calls\<close>

definition HasPrefix :: "string \<Rightarrow> string \<Rightarrow> bool" where
  "HasPrefix s pre = (length pre \<le> length s \<and> take (length pre) s = pre)"

fun Join :: "string list \<Rightarrow> string \<Rightarrow> string" where
  "Join [] sep = []"
| "Join [x] sep = x"
| "Join (x # y # ys) sep = x @ sep @ Join (y # ys) sep"

text \<open>\<open>strings.Split(s, "\n")\<close>: the pieces between the line feeds, one piece more than
  there are line feeds (so one empty piece for the empty string).\<close>

fun Split_lines :: "string \<Rightarrow> string list" where
  "Split_lines [] = [[]]"
| "Split_lines (c # cs) =
     (if c = CHR 0x0A then [] # Split_lines cs
      else (case Split_lines cs of
              [] \<Rightarrow> [[c]]
            | r # rs \<Rightarrow> (c # r) # rs))"

text \<open>\<open>strings.ToUpper\<close>: a string of ASCII bytes only is mapped byte by byte, the letters
  a to z to A to Z; any other string goes through the Unicode case tables, which the
  caller supplies here as \<open>uni\<close>.\<close>

definition ascii_upper :: "char \<Rightarrow> char" where
  "ascii_upper c =
     (if (97::nat) \<le> of_char c \<and> of_char c \<le> (122::nat)
      then char_of (of_char c - (32::nat)) else c)"

definition ToUpper :: "(string \<Rightarrow> string) \<Rightarrow> string \<Rightarrow> string" where
  "ToUpper uni s =
     (if list_all (\<lambda>c. of_char c < (128::nat)) s then map ascii_upper s else uni s)"

text \<open>Decimal digits of a status code, as \<open>log.Println\<close> prints an int.\<close>

fun Itoa :: "nat \<Rightarrow> string" where
  "Itoa n =
     (if n < 10 then [char_of (48 + n)]
      else Itoa (n div 10) @ [char_of (48 + n mod 10)])"

subsection \<open>getSeverityColor\<close>

definition getSeverityColor :: "string \<Rightarrow> int" where
  "getSeverityColor severity =
     (if severity = ''debug'' then ColorGrey
      else if severity = ''info'' then ColorBlue
      else if severity = ''warning'' then ColorOrange
      else if severity = ''critical'' then ColorRed
      else ColorRed)"

subsection \<open>Panics and Go's \<open>error\<close> results\<close>

text \<open>A Go call returning \<open>(x, err)\<close> is a pair here, \<open>None\<close> for a nil error; the
  code that writes \<open>x, _ :=\<close> takes the first component whatever the second is.\<close>

type_synonym go_error = "string option"

datatype panic =
  MissingLocation   \<comment> \<open>time: missing Location in call to Time.In\<close>
| ReadError string  \<comment> \<open>\<open>panic(err)\<close> of the handler, on a failed read of the request body\<close>

subsection \<open>The pieces of package time the code calls\<close>

text \<open>
  A \<open>*time.Location\<close> is \<open>UTC\<close>, \<open>Local\<close> (the zone of the system the process runs on)
  or a zone loaded by name; the nil pointer is \<open>None\<close>. A \<open>time.Time\<close> is an instant, in
  nanoseconds since the zero time (January 1, year 1, 00:00:00 UTC), and the location it
  is displayed in; \<open>Time{}\<close> is \<open>zeroTime\<close>.
\<close>

datatype Location = UTC | Local | Zone string

record Time =
  instant :: int
  location :: Location

definition zeroTime :: Time where
  "zeroTime = \<lparr>instant = 0, location = UTC\<rparr>"

text \<open>\<open>time.LoadLocation(name)\<close>, as package time documents it: UTC for the names \<open>""\<close>
  and \<open>"UTC"\<close>, Local for \<open>"Local"\<close>, otherwise the zone of that name in the time zone
  database (\<open>db\<close>), and nil with an error when the database has none.\<close>

definition LoadLocation :: "(string \<Rightarrow> Location option) \<Rightarrow> string \<Rightarrow> Location option \<times> go_error" where
  "LoadLocation db name =
     (if name = [] \<or> name = ''UTC'' then (Some UTC, None)
      else if name = ''Local'' then (Some Local, None)
      else (case db name of
              Some z \<Rightarrow> (Some z, None)
            | None \<Rightarrow> (None, Some (''unknown time zone '' @ name))))"

text \<open>\<open>t.In(loc)\<close>: the same instant displayed in \<open>loc\<close>; it panics when \<open>loc\<close> is nil.\<close>

definition time_In :: "Time \<Rightarrow> Location option \<Rightarrow> panic + Time" where
  "time_In t loc =
     (case loc of
        None \<Rightarrow> Inl MissingLocation
      | Some l \<Rightarrow> Inr (t\<lparr>location := l\<rparr>))"

definition time_After :: "Time \<Rightarrow> Time \<Rightarrow> bool" where
  "time_After t u = (instant u < instant t)"

text \<open>\<open>t.Sub(u)\<close>: the duration \<open>t - u\<close> in nanoseconds, an int64; a difference outside
  the int64 range gives the largest (or smallest) duration.\<close>

definition time_Sub :: "Time \<Rightarrow> Time \<Rightarrow> 64 word" where
  "time_Sub t u =
     (let d = instant t - instant u
      in word_of_int (if d > 2 ^ 63 - 1 then 2 ^ 63 - 1
                      else if d < - (2 ^ 63) then - (2 ^ 63) else d))"

subsection \<open>What the program takes from outside\<close>

text \<open>
  The remaining library calls, the process environment, the debug flag and the network are
  parameters of the model, gathered in one record. \<open>'f\<close> is \<open>float64\<close>.
  \<^item> \<open>Getenv\<close>: \<open>os.Getenv\<close> (the empty string for an unset variable); \<open>zoneinfo\<close>: the
    time zone database \<open>time.LoadLocation\<close> reads.
  \<^item> \<open>time_Parse\<close>: \<open>time.Parse(time.RFC3339, s)\<close>; \<open>time_Format\<close>:
    \<open>t.Format(time.DateTime)\<close>; \<open>time_Unix\<close>: \<open>time.Unix(sec, 0)\<close>;
    \<open>Duration_String\<close>: \<open>d.String()\<close>.
  \<^item> \<open>ParseFloat\<close>: \<open>strconv.ParseFloat(s, 64)\<close>; \<open>float_zero\<close>: the zero value of a
    \<open>float64\<close> variable; \<open>float_int64\<close>: the conversion \<open>int64(v)\<close>; \<open>float_is_one\<close>:
    \<open>v == 1.0\<close>; \<open>Sprintf_2f\<close>: \<open>fmt.Sprintf("%.2f", v)\<close>.
  \<^item> \<open>unicode_ToUpper\<close>: the Unicode branch of \<open>strings.ToUpper\<close>.
  \<^item> \<open>json_Unmarshal\<close>: \<open>json.Unmarshal(b, &amo)\<close> on a fresh \<open>alertManOut\<close>;
    \<open>json_Marshal\<close>: \<open>json.Marshal\<close> of a \<open>discordOut\<close>.
  \<^item> \<open>isRawPromAlert\<close>: the function of that name, which main.go calls and another
    file of the package defines.
  \<^item> \<open>http_Post\<close>: what \<open>http.Post(*whURL, "application/json", body)\<close> returns, given
    how many POSTs were issued before it and the body.
  \<^item> \<open>debug_flag\<close>: the flag \<open>*debug\<close>.
\<close>

datatype post_result =
  Failed string           \<comment> \<open>\<open>err != nil\<close>: connection error, DNS failure, timeout\<close>
| Responded nat string    \<comment> \<open>a response: its status code and its body\<close>

record 'f extern =
  Getenv :: "string \<Rightarrow> string"
  zoneinfo :: "string \<Rightarrow> Location option"
  time_Parse :: "string \<Rightarrow> Time \<times> go_error"
  time_Format :: "Time \<Rightarrow> string"
  time_Unix :: "64 word \<Rightarrow> Time"
  Duration_String :: "64 word \<Rightarrow> string"
  ParseFloat :: "string \<Rightarrow> 'f \<times> go_error"
  float_zero :: 'f
  float_int64 :: "'f \<Rightarrow> 64 word"
  float_is_one :: "'f \<Rightarrow> bool"
  Sprintf_2f :: "'f \<Rightarrow> string"
  unicode_ToUpper :: "string \<Rightarrow> string"
  json_Unmarshal :: "string \<Rightarrow> alertManOut \<times> go_error"
  json_Marshal :: "discordOut \<Rightarrow> string \<times> go_error"
  isRawPromAlert :: "string \<Rightarrow> bool"
  http_Post :: "nat \<Rightarrow> string \<Rightarrow> post_result"
  debug_flag :: bool

subsection \<open>valueConv\<close>

definition valueConv :: "'f extern \<Rightarrow> 'f \<Rightarrow> string \<Rightarrow> string" where
  "valueConv env v conv =
     (if conv = ''duration'' then Duration_String env (float_int64 env v * 1000000000)
      else if conv = ''timestamp'' then time_Format env (time_Unix env (float_int64 env v))
      else if conv = ''updown'' then (if float_is_one env v then ''up'' else ''down'')
      else Sprintf_2f env v)"

subsection \<open>sendWebhook: the body of the loop over the alerts\<close>

text \<open>Lines 349 to 365: the display status and the colour.\<close>

definition status_color :: "alertManAlert \<Rightarrow> string \<times> int" where
  "status_color alert =
     (if Status alert = ''firing'' then
        (let status = (case map_of (Labels alert) ''severity'' of
                         Some s \<Rightarrow> s
                       | None \<Rightarrow> Status alert)
         in (status, getSeverityColor status))
      else if Status alert = ''resolved'' then (''normal'', ColorGreen)
      else (Status alert, ColorGrey))"

text \<open>Lines 372 to 390: one step of the loop over the labels, on the three variables
  \<open>labels\<close>, \<open>metricsValue\<close> and \<open>metricsConv\<close>; then the loop.\<close>

definition label_line :: "string \<Rightarrow> string \<Rightarrow> string" where
  "label_line k v = '': - **_'' @ k @ '':_** '' @ v"

definition label_step ::
  "'f extern \<Rightarrow> string \<times> string \<Rightarrow> string list \<times> 'f \<times> string \<Rightarrow> string list \<times> 'f \<times> string" where
  "label_step env kv st =
     (case (kv, st) of ((k, v), (labels, metricsValue, metricsConv)) \<Rightarrow>
        if HasPrefix k ''metrics_'' then
          (if k = ''metrics_value'' then (labels, fst (ParseFloat env v), metricsConv)
           else if k = ''metrics_conv'' then (labels, metricsValue, v)
           else (labels, metricsValue, metricsConv))
        else if k = ''value'' then (labels, metricsValue, metricsConv)
        else (labels @ [label_line k v], metricsValue, metricsConv))"

fun label_loop ::
  "'f extern \<Rightarrow> (string \<times> string) list \<Rightarrow> string list \<times> 'f \<times> string \<Rightarrow> string list \<times> 'f \<times> string" where
  "label_loop env [] st = st"
| "label_loop env (kv # kvs) st = label_loop env kvs (label_step env kv st)"

text \<open>Lines 372 to 393: the label lines of an alert whose display status is \<open>status\<close>.\<close>

definition alert_labels :: "'f extern \<Rightarrow> string \<Rightarrow> (string \<times> string) list \<Rightarrow> string list" where
  "alert_labels env status ls =
     (case label_loop env ls ([], float_zero env, []) of
        (labels, metricsValue, metricsConv) \<Rightarrow>
          if status \<noteq> ''normal''
          then labels @ ['': - **_value:_** '' @ valueConv env metricsValue metricsConv]
          else labels)"

text \<open>Lines 394 to 397: the description, one bulleted line for each of its lines.\<close>

definition alert_description :: "alertManAlert \<Rightarrow> string list" where
  "alert_description alert =
     map (\<lambda>v. '': - '' @ v) (Split_lines (Description (Annotations alert)))"

text \<open>The non-ASCII characters of the literals, in UTF-8: the alarm clock, the label
  with its variation selector, the open book, the timer clock with its variation
  selector.\<close>

definition alarm_clock :: string where
  "alarm_clock = [CHR 0xE2, CHR 0x8F, CHR 0xB0]"
definition label_sign :: string where
  "label_sign = [CHR 0xF0, CHR 0x9F, CHR 0x8F, CHR 0xB7, CHR 0xEF, CHR 0xB8, CHR 0x8F]"
definition open_book :: string where
  "open_book = [CHR 0xF0, CHR 0x9F, CHR 0x93, CHR 0x96]"
definition timer_clock :: string where
  "timer_clock = [CHR 0xE2, CHR 0x8F, CHR 0xB2, CHR 0xEF, CHR 0xB8, CHR 0x8F]"
definition nl :: string where
  "nl = [CHR 0x0A]"

text \<open>Lines 398 to 414: the sections of the body, then the body.\<close>

definition embedDescribe ::
  "'f extern \<Rightarrow> Time \<Rightarrow> Time \<Rightarrow> string list \<Rightarrow> string list \<Rightarrow> string list" where
  "embedDescribe env startAt endAt labels description =
     (let eventTime = (if time_After endAt startAt then endAt else startAt)
      in [''**'' @ alarm_clock @ '' Event Time:** '' @ time_Format env eventTime,
          ''**'' @ label_sign @ '' Alert labels:**'' @ nl @ Join labels nl,
          ''------'',
          ''**'' @ open_book @ '' Description:**'' @ nl @ Join description nl]
         @ (if time_After endAt startAt
            then [''------'',
                  ''**'' @ timer_clock @ '' Duration:** '' @ Duration_String env (time_Sub endAt startAt),
                  '': - **_Start:_** '' @ time_Format env startAt,
                  '': - **_End:_** '' @ time_Format env endAt]
            else []))"

text \<open>Lines 366 to 370: the two timestamps, in the location of the environment's TZ.\<close>

definition alert_times :: "'f extern \<Rightarrow> alertManAlert \<Rightarrow> panic + Time \<times> Time" where
  "alert_times env alert =
     (let loc = fst (LoadLocation (zoneinfo env) (Getenv env ''TZ''))
      in case time_In (fst (time_Parse env (StartsAt alert))) loc of
           Inl p \<Rightarrow> Inl p
         | Inr startAt \<Rightarrow>
             (case time_In (fst (time_Parse env (EndsAt alert))) loc of
                Inl p \<Rightarrow> Inl p
              | Inr endAt \<Rightarrow> Inr (startAt, endAt)))"

text \<open>Lines 349 to 415: one pass of the loop, from an alert to its embed.\<close>

definition renderAlert :: "'f extern \<Rightarrow> alertManAlert \<Rightarrow> panic + discordEmbed" where
  "renderAlert env alert =
     (case status_color alert of (status, color) \<Rightarrow>
        (case alert_times env alert of
           Inl p \<Rightarrow> Inl p
         | Inr (startAt, endAt) \<Rightarrow>
             Inr \<lparr>Title = ''['' @ ToUpper (unicode_ToUpper env) status @ ''] ''
                            @ Summary (Annotations alert),
                  Description_embed =
                    Join (embedDescribe env startAt endAt
                            (alert_labels env status (Labels alert))
                            (alert_description alert)) nl,
                  Color = color,
                  Fields = []\<rparr>))"

text \<open>Lines 348 to 416: the loop, which appends one embed for each alert, in order.\<close>

fun render_all :: "'f extern \<Rightarrow> alertManAlert list \<Rightarrow> panic + discordEmbed list" where
  "render_all env [] = Inr []"
| "render_all env (alert # alerts) =
     (case renderAlert env alert of
        Inl p \<Rightarrow> Inl p
      | Inr emb \<Rightarrow>
          (case render_all env alerts of
             Inl p \<Rightarrow> Inl p
           | Inr embs \<Rightarrow> Inr (emb # embs)))"

subsection \<open>Effects: the webhook, the log and the standard output\<close>

text \<open>
  What a request does to the outside: \<open>posts\<close> are the messages POSTed to \<open>*whURL\<close> (the
  body of each POST is the message's \<open>json.Marshal\<close>), \<open>logs\<close> the lines written through
  package log, \<open>stdout\<close> the lines printed with \<open>fmt.Println\<close>. All three grow at the end.
\<close>

record world =
  posts :: "discordOut list"
  logs :: "string list"
  stdout :: "string list"

subsection \<open>fireMessageOut\<close>

definition fireMessageOut :: "'f extern \<Rightarrow> world \<Rightarrow> discordOut \<Rightarrow> world" where
  "fireMessageOut env w msg =
     (let DOD = fst (json_Marshal env msg);
          w1 = (if debug_flag env then w\<lparr>stdout := stdout w @ [''Send webhook: '' @ DOD]\<rparr> else w);
          r = http_Post env (length (posts w1)) DOD;
          w2 = w1\<lparr>posts := posts w1 @ [msg]\<rparr>
      in case r of
           Failed err \<Rightarrow> w2\<lparr>logs := logs w2 @ [''Send discord error -: '' @ err]\<rparr>
         | Responded StatusCode b \<Rightarrow>
             if StatusCode \<ge> 400
             then w2\<lparr>logs := logs w2 @
                    [''Discord server return error -: '' @ Itoa StatusCode @ '' '' @ b]\<rparr>
             else w2)"

subsection \<open>sendWebhook: the bulk send and the whole function\<close>

text \<open>Lines 420 to 427: the loop \<open>for i := 0; i < len(embeds); i += MaxDiscordEmbed\<close>,
  from the value \<open>i\<close> on. The slice \<open>embeds[i : i+MaxDiscordEmbed]\<close> is taken only when
  its upper bound is within the length, so it never panics.\<close>

function bulk_send ::
  "'f extern \<Rightarrow> discordEmbed list \<Rightarrow> nat \<Rightarrow> discordOut \<Rightarrow> world \<Rightarrow> world" where
  "bulk_send env embs i DO w =
     (if i < length embs then
        (let DO' = (if i + MaxDiscordEmbed \<le> length embs
                    then DO\<lparr>Embeds := take MaxDiscordEmbed (drop i embs)\<rparr>
                    else DO\<lparr>Embeds := drop i embs\<rparr>)
         in bulk_send env embs (i + MaxDiscordEmbed) DO' (fireMessageOut env w DO'))
      else w)"
  by pat_completeness auto
termination
  by (relation "measure (\<lambda>(env, embs, i, DO, w). length embs - i)")
     (auto simp: MaxDiscordEmbed_def)

definition header_line :: "alertManOut \<Rightarrow> string" where
  "header_line amo =
     ''=== Alert: '' @ Receiver amo @ '' - '' @ GroupLabels_Alertname amo @ '' ===''"

text \<open>Lines 418 to 431, on the embeds the loop has built.\<close>

definition send_embeds :: "'f extern \<Rightarrow> world \<Rightarrow> discordOut \<Rightarrow> discordEmbed list \<Rightarrow> world" where
  "send_embeds env w DO embs =
     (if length embs > MaxDiscordEmbed then bulk_send env embs 0 DO w
      else fireMessageOut env w (DO\<lparr>Embeds := embs\<rparr>))"

text \<open>The function: a panic while an alert is rendered leaves it before anything is
  sent.\<close>

definition sendWebhook :: "'f extern \<Rightarrow> world \<Rightarrow> alertManOut \<Rightarrow> panic + world" where
  "sendWebhook env w amo =
     (let DO = \<lparr>Content = header_line amo, Embeds = []\<rparr>
      in case render_all env (Alerts amo) of
           Inl p \<Rightarrow> Inl p
         | Inr embs \<Rightarrow> Inr (send_embeds env w DO embs))"

subsection \<open>sendRawPromAlertWarn\<close>

definition badString :: string where
  "badString =
     ''This program is suppose to be fed by alertmanager.'' @ nl @
     ''It is not a replacement for alertmanager, it is a '' @ nl @
     ''webhook target for it. Please read the README.md  '' @ nl @
     ''for guidance on how to configure it for alertmanager'' @ nl @
     ''or https://prometheus.io/docs/alerting/latest/configuration/#webhook_config''"

definition sendRawPromAlertWarn :: "'f extern \<Rightarrow> world \<Rightarrow> world" where
  "sendRawPromAlertWarn env w =
     (let w1 = w\<lparr>logs := logs w @
                 [''/!'' @ [CHR 0x5C] @ '' -- You have misconfigured this software -- /!'' @ [CHR 0x5C],
                  ''--- --                                      -- ---'',
                  badString]\<rparr>;
          DO = \<lparr>Content = [],
                Embeds = [\<lparr>Title = ''You have misconfigured this software'',
                           Description_embed = badString,
                           Color = ColorGrey,
                           Fields = []\<rparr>]\<rparr>
      in w1\<lparr>posts := posts w1 @ [DO]\<rparr>)"

subsection \<open>The handler of main\<close>

text \<open>
  A request as the handler reads it: the three fields it logs, and what
  \<open>ioutil.ReadAll(r.Body)\<close> returns. The \<open>http.ResponseWriter\<close> is the status code
  written with \<open>WriteHeader\<close>, if any, and the bytes written to the body.
\<close>

record Request =
  Host :: string
  Method :: string
  URL :: string
  Body :: "string \<times> go_error"

record ResponseWriter =
  status_written :: "nat option"
  body_written :: string

datatype outcome = Returned | Panicked panic

text \<open>Lines 540 to 545: the line logged for a body that is neither an alert group nor a
  raw Prometheus alert.\<close>

definition unpack_failure_line :: "string \<Rightarrow> string" where
  "unpack_failure_line b =
     (if length b > 1024
      then ''Failed to unpack inbound alert request - '' @ take 1023 b @ ''...''
      else ''Failed to unpack inbound alert request - '' @ b)"

definition handler ::
  "'f extern \<Rightarrow> ResponseWriter \<Rightarrow> world \<Rightarrow> Request \<Rightarrow> ResponseWriter \<times> world \<times> outcome" where
  "handler env rw w r =
     (let w1 = w\<lparr>logs := logs w @ [Host r @ '' - ['' @ Method r @ ''] '' @ URL r]\<rparr>
      in case Body r of
           (b, Some err) \<Rightarrow> (rw, w1, Panicked (ReadError err))
         | (b, None) \<Rightarrow>
             (let w2 = (if debug_flag env
                        then w1\<lparr>stdout := stdout w1 @ [''Receive webhook: '' @ b]\<rparr> else w1)
              in case json_Unmarshal env b of
                   (amo, Some err) \<Rightarrow>
                     if isRawPromAlert env b then (rw, sendRawPromAlertWarn env w2, Returned)
                     else (rw, w2\<lparr>logs := logs w2 @ [unpack_failure_line b]\<rparr>, Returned)
                 | (amo, None) \<Rightarrow>
                     (case sendWebhook env w2 amo of
                        Inl p \<Rightarrow> (rw, w2, Panicked p)
                      | Inr w3 \<Rightarrow> (rw, w3, Returned))))"

text \<open>
  What net/http makes of a handler call, as it documents: when the handler returns
  without a call of \<open>WriteHeader\<close> the status is 200, and the body is what the handler
  wrote; when the handler panics the server recovers, logs the panic and closes the
  connection, so the caller gets no response.
\<close>

definition serve :: "'f extern \<Rightarrow> world \<Rightarrow> Request \<Rightarrow> (nat \<times> string) option" where
  "serve env w r =
     (case handler env \<lparr>status_written = None, body_written = []\<rparr> w r of
        (rw, w', Returned) \<Rightarrow>
          Some (case status_written rw of None \<Rightarrow> 200 | Some c \<Rightarrow> c, body_written rw)
      | (rw, w', Panicked p) \<Rightarrow> None)"

subsection \<open>The batching contract\<close>

text \<open>The partition the batcher is specified by: the runs of \<open>n\<close> elements of a list, in
  order, the last one shorter when the length is not a multiple of \<open>n\<close>.\<close>

function chunks :: "nat \<Rightarrow> 'a list \<Rightarrow> 'a list list" where
  "chunks n xs = (if n = 0 \<or> xs = [] then [] else take n xs # chunks n (drop n xs))"
  by pat_completeness auto
termination
  by (relation "measure (\<lambda>(n, xs). length xs)") auto

subsection \<open>Example externals\<close>

text \<open>
  Concrete externals, to run the model on concrete inputs. They stand in for the
  libraries on the few inputs the examples use: \<open>float_val\<close> for \<open>float64\<close> (whole
  numbers and the non-finite values), a \<open>time.Parse\<close> that knows two timestamps and
  returns the zero time with an error for every other string, a \<open>strconv.ParseFloat\<close>
  that returns 0 with a syntax error for a string that is no number and, as strconv
  documents, the infinity with a range error for the well-formed \<open>1e999\<close>, a time zone
  database with one zone, and a webhook whose first POST of a request fails at the
  transport level. \<open>tz\<close> is the value of the environment variable TZ.
\<close>

datatype float_val = Fin int | PosInf | NegInf | NaN

definition example_time_Parse :: "string \<Rightarrow> Time \<times> go_error" where
  "example_time_Parse s =
     (if s = ''2024-01-01T00:00:00Z''
      then (\<lparr>instant = 63839664000 * 1000000000, location = UTC\<rparr>, None)
      else if s = ''2024-01-01T01:00:00Z''
      then (\<lparr>instant = 63839667600 * 1000000000, location = UTC\<rparr>, None)
      else (zeroTime, Some (''parsing time: cannot parse '' @ s)))"

definition example_location_name :: "Location \<Rightarrow> string" where
  "example_location_name l = (case l of UTC \<Rightarrow> ''UTC'' | Local \<Rightarrow> ''Local'' | Zone z \<Rightarrow> z)"

definition example_time_Format :: "Time \<Rightarrow> string" where
  "example_time_Format t =
     Itoa (nat (instant t div 1000000000)) @ '' '' @ example_location_name (location t)"

definition example_ParseFloat :: "string \<Rightarrow> float_val \<times> go_error" where
  "example_ParseFloat s =
     (if s = ''1'' then (Fin 1, None)
      else if s = ''42'' then (Fin 42, None)
      else if s = ''1e999'' then (PosInf, Some ''value out of range'')
      else (Fin 0, Some ''invalid syntax''))"

definition example_Sprintf_2f :: "float_val \<Rightarrow> string" where
  "example_Sprintf_2f v =
     (case v of
        Fin n \<Rightarrow> (if n < 0 then ''-'' else []) @ Itoa (nat \<bar>n\<bar>) @ ''.00''
      | PosInf \<Rightarrow> ''+Inf''
      | NegInf \<Rightarrow> ''-Inf''
      | NaN \<Rightarrow> ''NaN'')"

definition example_float_int64 :: "float_val \<Rightarrow> 64 word" where
  "example_float_int64 v = (case v of Fin n \<Rightarrow> word_of_int n | _ \<Rightarrow> word_of_int (- (2 ^ 63)))"

definition example_alert :: "string \<Rightarrow> (string \<times> string) list \<Rightarrow> string \<Rightarrow> string \<Rightarrow> alertManAlert" where
  "example_alert st ls s e =
     \<lparr>Annotations = \<lparr>Description = ''disk full'', Summary = ''Disk''\<rparr>,
      EndsAt = e, GeneratorURL = [], Labels = ls, StartsAt = s, Status = st\<rparr>"

definition example_group :: "alertManAlert list \<Rightarrow> alertManOut" where
  "example_group as =
     \<lparr>Alerts = as, CommonAnnotations_Summary = [], CommonLabels_Alertname = ''DiskFull'',
      ExternalURL = [], GroupKey = [], GroupLabels_Alertname = ''DiskFull'',
      Receiver = ''discord'', Status_group = ''firing'', Version = ''4''\<rparr>"

definition example_json_Unmarshal :: "string \<Rightarrow> alertManOut \<times> go_error" where
  "example_json_Unmarshal b =
     (if b = ''{one firing alert}''
      then (example_group [example_alert ''firing'' [(''severity'', ''critical'')]
                             ''2024-01-01T00:00:00Z'' ''0001-01-01T00:00:00Z''], None)
      else if b = ''{}'' then (example_group [], None)
      else (example_group [], Some ''invalid character''))"

definition example_env :: "string \<Rightarrow> float_val extern" where
  "example_env tz =
     \<lparr>Getenv = (\<lambda>k. if k = ''TZ'' then tz else []),
      zoneinfo = (\<lambda>n. if n = ''Asia/Bangkok'' then Some (Zone ''Asia/Bangkok'') else None),
      time_Parse = example_time_Parse,
      time_Format = example_time_Format,
      time_Unix = (\<lambda>sec. \<lparr>instant = (sint sec + 62135596800) * 1000000000, location = Local\<rparr>),
      Duration_String = (\<lambda>d. Itoa (nat (sint d div 1000000000)) @ ''s''),
      ParseFloat = example_ParseFloat,
      float_zero = Fin 0,
      float_int64 = example_float_int64,
      float_is_one = (\<lambda>v. v = Fin 1),
      Sprintf_2f = example_Sprintf_2f,
      unicode_ToUpper = (\<lambda>s. s),
      json_Unmarshal = example_json_Unmarshal,
      json_Marshal = (\<lambda>m. (Content m @ '' #'' @ Itoa (length (Embeds m)), None)),
      isRawPromAlert = (\<lambda>b. b = ''[{raw prometheus alert}]''),
      http_Post = (\<lambda>n b. if n = 0 then Failed ''dial tcp: connection refused''
                           else Responded 204 []),
      debug_flag = False\<rparr>"

definition empty_world :: world where
  "empty_world = \<lparr>posts = [], logs = [], stdout = []\<rparr>"

section \<open>Properties\<close>

subsection \<open>The severity classifier\<close>

text \<open>
  Claim C9. For every severity string, \<open>getSeverityColor\<close> returns grey for "debug", blue
  for "info", orange for "warning", red for "critical", and red for any other string,
  the empty string included.
\<close>

theorem C9_severity_colors:
  "getSeverityColor ''debug'' = ColorGrey \<and>
   getSeverityColor ''info'' = ColorBlue \<and>
   getSeverityColor ''warning'' = ColorOrange \<and>
   getSeverityColor ''critical'' = ColorRed \<and>
   getSeverityColor [] = ColorRed \<and>
   (\<forall>s. s \<noteq> ''debug'' \<and> s \<noteq> ''info'' \<and> s \<noteq> ''warning'' \<and> s \<noteq> ''critical''
        \<longrightarrow> getSeverityColor s = ColorRed)"
  by (simp add: getSeverityColor_def)

theorem C9_severity_colors_witness:
  "getSeverityColor ''fatal'' = ColorRed \<and> getSeverityColor ''fatal'' = 0x992D22"
  using C9_severity_colors by (simp add: ColorRed_def)

subsection \<open>The renderer: when a unit exists, and its title and colour\<close>

lemma alert_times_eq:
  "alert_times env alert =
     (case fst (LoadLocation (zoneinfo env) (Getenv env ''TZ'')) of
        None \<Rightarrow> Inl MissingLocation
      | Some l \<Rightarrow> Inr ((fst (time_Parse env (StartsAt alert)))\<lparr>location := l\<rparr>,
                        (fst (time_Parse env (EndsAt alert)))\<lparr>location := l\<rparr>))"
  by (simp add: alert_times_def time_In_def Let_def split: option.splits)

lemma renderAlert_Inr:
  "fst (LoadLocation (zoneinfo env) (Getenv env ''TZ'')) = Some l \<Longrightarrow>
   \<exists>u. renderAlert env alert = Inr u"
  by (simp add: renderAlert_def alert_times_eq split: prod.splits)

lemma renderAlert_eq:
  "renderAlert env alert =
     (case fst (LoadLocation (zoneinfo env) (Getenv env ''TZ'')) of
        None \<Rightarrow> Inl MissingLocation
      | Some l \<Rightarrow>
          Inr \<lparr>Title = ''['' @ ToUpper (unicode_ToUpper env) (fst (status_color alert)) @ ''] ''
                         @ Summary (Annotations alert),
               Description_embed =
                 Join (embedDescribe env
                         ((fst (time_Parse env (StartsAt alert)))\<lparr>location := l\<rparr>)
                         ((fst (time_Parse env (EndsAt alert)))\<lparr>location := l\<rparr>)
                         (alert_labels env (fst (status_color alert)) (Labels alert))
                         (alert_description alert)) nl,
               Color = snd (status_color alert),
               Fields = []\<rparr>)"
  by (simp add: renderAlert_def alert_times_eq split: prod.splits option.splits)

lemma render_all_replicate:
  "renderAlert env a = Inr e \<Longrightarrow> render_all env (replicate n a) = Inr (replicate n e)"
  by (induction n) simp_all

lemma example_env_UTC: "fst (LoadLocation (zoneinfo (example_env ''UTC'')) (Getenv (example_env ''UTC'') ''TZ'')) = Some UTC"
  by (simp add: example_env_def LoadLocation_def)

lemma ascii_upper_normal: "map ascii_upper ''normal'' = ''NORMAL''"
  by code_simp

lemma ToUpper_normal: "ToUpper uni ''normal'' = ''NORMAL''"
  unfolding ToUpper_def ascii_upper_normal by simp

text \<open>
  Claim C2. For every alert whose status is "resolved", whatever its labels (a "severity"
  label included): the display status is "normal", and the rendered unit has the colour
  green and the title "[NORMAL] " followed by the summary. The loop yields no unit only
  when the time zone name of the environment does not resolve.
\<close>

theorem C2_resolved_is_normal_green:
  assumes "Status alert = ''resolved''"
  shows "fst (status_color alert) = ''normal'' \<and>
         (case renderAlert env alert of
            Inr u \<Rightarrow> Color u = ColorGreen \<and> Color u = 0x2ECC71 \<and>
                     Title u = ''[NORMAL] '' @ Summary (Annotations alert)
          | Inl p \<Rightarrow> fst (LoadLocation (zoneinfo env) (Getenv env ''TZ'')) = None)"
proof -
  have sc: "status_color alert = (''normal'', ColorGreen)"
    using assms by (simp add: status_color_def)
  show ?thesis
    by (simp add: renderAlert_eq sc ToUpper_normal ColorGreen_def split: option.splits)
qed

theorem C2_resolved_is_normal_green_witness:
  "Status (example_alert ''resolved'' [(''severity'', ''critical'')] [] []) = ''resolved'' \<and>
   (\<exists>u. renderAlert (example_env ''UTC'')
           (example_alert ''resolved'' [(''severity'', ''critical'')] [] []) = Inr u \<and>
        Color u = 0x2ECC71 \<and> Title u = ''[NORMAL] Disk'')"
proof -
  let ?a = "example_alert ''resolved'' [(''severity'', ''critical'')] [] []"
  have st: "Status ?a = ''resolved''" by (simp add: example_alert_def)
  obtain u where u: "renderAlert (example_env ''UTC'') ?a = Inr u"
    using renderAlert_Inr [OF example_env_UTC] by blast
  from C2_resolved_is_normal_green [OF st, of "example_env ''UTC''"] u
  have "Color u = 0x2ECC71 \<and> Title u = ''[NORMAL] '' @ Summary (Annotations ?a)" by simp
  then have "Color u = 0x2ECC71 \<and> Title u = ''[NORMAL] Disk''"
    by (simp add: example_alert_def)
  with st u show ?thesis by blast
qed

subsection \<open>The renderer: the label lines\<close>

declare Itoa.simps [simp del]

lemma HasPrefix_metrics_value: "HasPrefix ''metrics_value'' ''metrics_''"
  by (simp add: HasPrefix_def)

lemma HasPrefix_metrics_conv: "HasPrefix ''metrics_conv'' ''metrics_''"
  by (simp add: HasPrefix_def)

lemma not_HasPrefix_value: "\<not> HasPrefix ''value'' ''metrics_''"
  by (simp add: HasPrefix_def)

lemma label_loop_eq:
  "distinct (map fst ls) \<Longrightarrow>
   label_loop env ls (acc, mv, mc) =
     (acc @ map (\<lambda>(k, v). '': - **_'' @ k @ '':_** '' @ v)
              (filter (\<lambda>(k, v). \<not> HasPrefix k ''metrics_'' \<and> k \<noteq> ''value'') ls),
      (case map_of ls ''metrics_value'' of Some v \<Rightarrow> fst (ParseFloat env v) | None \<Rightarrow> mv),
      (case map_of ls ''metrics_conv'' of Some v \<Rightarrow> v | None \<Rightarrow> mc))"
proof (induction ls arbitrary: acc mv mc)
  case Nil
  show ?case by simp
next
  case (Cons kv ls)
  obtain k v where kv: "kv = (k, v)" by (cases kv)
  from Cons.prems kv have d: "distinct (map fst ls)" and nk: "map_of ls k = None"
    by (auto simp: map_of_eq_None_iff)
  show ?case
  proof (cases "HasPrefix k ''metrics_''")
    case True
    then have nv: "k \<noteq> ''value''" using not_HasPrefix_value by auto
    show ?thesis
    proof (cases "k = ''metrics_value''")
      case mvk: True
      then show ?thesis
        using Cons.IH [OF d] nk kv HasPrefix_metrics_value
        by (simp add: label_step_def)
    next
      case nmv: False
      show ?thesis
      proof (cases "k = ''metrics_conv''")
        case mck: True
        then show ?thesis
          using Cons.IH [OF d] nk kv HasPrefix_metrics_conv
          by (simp add: label_step_def)
      next
        case nmc: False
        then show ?thesis
          using Cons.IH [OF d] kv True nmv
          by (simp add: label_step_def)
      qed
    qed
  next
    case False
    then have n1: "k \<noteq> ''metrics_value''" and n2: "k \<noteq> ''metrics_conv''"
      using HasPrefix_metrics_value HasPrefix_metrics_conv by auto
    show ?thesis
      using Cons.IH [OF d] kv False n1 n2
      by (simp add: label_step_def label_line_def)
  qed
qed

lemma label_loop_labels:
  "fst (label_loop env ls (acc, mv, mc)) =
     acc @ map (\<lambda>(k, v). '': - **_'' @ k @ '':_** '' @ v)
             (filter (\<lambda>(k, v). \<not> HasPrefix k ''metrics_'' \<and> k \<noteq> ''value'') ls)"
proof (induction ls arbitrary: acc mv mc)
  case Nil
  show ?case by simp
next
  case (Cons kv ls)
  obtain k v where kv: "kv = (k, v)" by (cases kv)
  show ?case
    using Cons.IH kv by (simp add: label_step_def label_line_def)
qed

text \<open>
  Claim C10. For every alert with status "firing" and a label "severity" of value
  "normal": the display status is "normal", the label lines are the ordinary ones with no
  auxiliary metric line after them, the title is "[NORMAL] " followed by the summary, and
  the colour is red (the classifier's default), not green.
\<close>

theorem C10_firing_severity_normal:
  assumes "Status alert = ''firing''" and "map_of (Labels alert) ''severity'' = Some ''normal''"
  shows "fst (status_color alert) = ''normal'' \<and>
         alert_labels env (fst (status_color alert)) (Labels alert) =
           map (\<lambda>(k, v). '': - **_'' @ k @ '':_** '' @ v)
             (filter (\<lambda>(k, v). \<not> HasPrefix k ''metrics_'' \<and> k \<noteq> ''value'') (Labels alert)) \<and>
         (case renderAlert env alert of
            Inr u \<Rightarrow> Title u = ''[NORMAL] '' @ Summary (Annotations alert) \<and>
                     Color u = ColorRed \<and> Color u \<noteq> ColorGreen
          | Inl p \<Rightarrow> fst (LoadLocation (zoneinfo env) (Getenv env ''TZ'')) = None)"
proof -
  have sc: "status_color alert = (''normal'', ColorRed)"
    using assms by (simp add: status_color_def getSeverityColor_def)
  have "alert_labels env ''normal'' (Labels alert) =
              fst (label_loop env (Labels alert) ([], float_zero env, []))"
    by (simp add: alert_labels_def split: prod.splits)
  then have al: "alert_labels env ''normal'' (Labels alert) =
           map (\<lambda>(k, v). '': - **_'' @ k @ '':_** '' @ v)
             (filter (\<lambda>(k, v). \<not> HasPrefix k ''metrics_'' \<and> k \<noteq> ''value'') (Labels alert))"
    by (simp add: label_loop_labels)
  show ?thesis
    by (simp add: renderAlert_eq sc al ToUpper_normal ColorGreen_def ColorRed_def split: option.splits)
qed

theorem C10_firing_severity_normal_witness:
  "Status (example_alert ''firing'' [(''severity'', ''normal''), (''metrics_value'', ''42'')] [] [])
     = ''firing'' \<and>
   map_of (Labels (example_alert ''firing'' [(''severity'', ''normal''), (''metrics_value'', ''42'')] [] []))
     ''severity'' = Some ''normal'' \<and>
   alert_labels (example_env ''UTC'') ''normal'' [(''severity'', ''normal''), (''metrics_value'', ''42'')] =
     ['': - **_severity:_** normal''] \<and>
   (\<exists>u. renderAlert (example_env ''UTC'')
           (example_alert ''firing'' [(''severity'', ''normal''), (''metrics_value'', ''42'')] [] []) = Inr u \<and>
        Title u = ''[NORMAL] Disk'' \<and> Color u = 0x992D22)"
proof -
  let ?a = "example_alert ''firing'' [(''severity'', ''normal''), (''metrics_value'', ''42'')] [] []"
  have st: "Status ?a = ''firing''" by (simp add: example_alert_def)
  have sv: "map_of (Labels ?a) ''severity'' = Some ''normal''" by (simp add: example_alert_def)
  obtain u where u: "renderAlert (example_env ''UTC'') ?a = Inr u"
    using renderAlert_Inr [OF example_env_UTC] by blast
  note c = C10_firing_severity_normal [OF st sv, of "example_env ''UTC''"]
  from c have s: "fst (status_color ?a) = ''normal''" by simp
  from c s have "alert_labels (example_env ''UTC'') ''normal'' (Labels ?a) =
           map (\<lambda>(k, v). '': - **_'' @ k @ '':_** '' @ v)
             (filter (\<lambda>(k, v). \<not> HasPrefix k ''metrics_'' \<and> k \<noteq> ''value'') (Labels ?a))"
    by simp
  then have l: "alert_labels (example_env ''UTC'') ''normal''
                  [(''severity'', ''normal''), (''metrics_value'', ''42'')] =
                ['': - **_severity:_** normal'']"
    by (simp add: example_alert_def HasPrefix_def)
  from c u have "Title u = ''[NORMAL] '' @ Summary (Annotations ?a) \<and> Color u = ColorRed" by simp
  then have t: "Title u = ''[NORMAL] Disk'' \<and> Color u = 0x992D22"
    by (simp add: example_alert_def ColorRed_def)
  from st sv l u t show ?thesis by blast
qed

text \<open>
  Claim C4, amended. For every alert (the keys of its labels distinct, as in a Go map) and
  display status: the label lines are one bulleted "key: value" line for each label whose
  key neither starts with "metrics_" nor is "value", in the order of the loop; when the
  display status is not "normal" exactly one more line follows, the Value Formatter's
  rendering of the value \<open>strconv.ParseFloat\<close> returns for "metrics_value", whatever
  error comes with it (the zero float when the label is absent), under the tag of
  "metrics_conv" (the empty tag when absent); no such line when the status is "normal".
\<close>

theorem C4_label_lines:
  assumes "distinct (map fst (Labels alert))"
  shows "alert_labels env status (Labels alert) =
           map (\<lambda>(k, v). '': - **_'' @ k @ '':_** '' @ v)
             (filter (\<lambda>(k, v). \<not> HasPrefix k ''metrics_'' \<and> k \<noteq> ''value'') (Labels alert))
           @ (if status \<noteq> ''normal''
              then ['': - **_value:_** '' @
                    valueConv env
                      (case map_of (Labels alert) ''metrics_value'' of
                         Some v \<Rightarrow> fst (ParseFloat env v)
                       | None \<Rightarrow> float_zero env)
                      (case map_of (Labels alert) ''metrics_conv'' of
                         Some v \<Rightarrow> v
                       | None \<Rightarrow> [])]
              else [])"
  by (simp add: alert_labels_def label_loop_eq [OF assms])

theorem C4_label_lines_witness:
  "distinct (map fst [(''instance'', ''db1''), (''metrics_value'', ''42''), (''value'', ''9''),
                      (''metrics_conv'', ''updown''), (''severity'', ''critical'')]) \<and>
   alert_labels (example_env []) ''critical''
     [(''instance'', ''db1''), (''metrics_value'', ''42''), (''value'', ''9''),
      (''metrics_conv'', ''updown''), (''severity'', ''critical'')] =
     ['': - **_instance:_** db1'', '': - **_severity:_** critical'', '': - **_value:_** down''] \<and>
   alert_labels (example_env []) ''normal''
     [(''instance'', ''db1''), (''metrics_value'', ''42''), (''value'', ''9''),
      (''metrics_conv'', ''updown''), (''severity'', ''critical'')] =
     ['': - **_instance:_** db1'', '': - **_severity:_** critical'']"
proof -
  let ?a = "example_alert ''firing''
              [(''instance'', ''db1''), (''metrics_value'', ''42''), (''value'', ''9''),
               (''metrics_conv'', ''updown''), (''severity'', ''critical'')] [] []"
  have d: "distinct (map fst (Labels ?a))" by (simp add: example_alert_def)
  show ?thesis
    using C4_label_lines [OF d, of "example_env []" "''critical''"]
          C4_label_lines [OF d, of "example_env []" "''normal''"]
    by (simp add: example_alert_def HasPrefix_def valueConv_def example_env_def
                  example_ParseFloat_def)
qed

text \<open>
  Claim C4 as stated says a parse failure yields 0.0. \<open>strconv.ParseFloat\<close> returns the
  infinity together with its range error for a well-formed number that is too large, and
  the code keeps the value: the line rendered for "1e999" is not the line of 0.0.
\<close>

theorem C4_parse_failure_counterexample:
  "snd (ParseFloat (example_env []) ''1e999'') \<noteq> None \<and>
   alert_labels (example_env []) ''firing'' [(''metrics_value'', ''1e999'')] =
     ['': - **_value:_** +Inf''] \<and>
   alert_labels (example_env []) ''firing'' [(''metrics_value'', ''1e999'')] \<noteq>
     ['': - **_value:_** '' @ valueConv (example_env []) (float_zero (example_env [])) []]"
  by (simp add: alert_labels_def label_step_def HasPrefix_def valueConv_def example_env_def
                example_ParseFloat_def example_Sprintf_2f_def Itoa.simps)

subsection \<open>The renderer: the sections of the body\<close>

lemma time_Sub_exact:
  "- (2 ^ 63) \<le> instant t - instant u \<Longrightarrow> instant t - instant u < 2 ^ 63 \<Longrightarrow>
   sint (time_Sub t u) = instant t - instant u"
proof -
  define d where "d = instant t - instant u"
  assume "- (2 ^ 63) \<le> instant t - instant u" and "instant t - instant u < 2 ^ 63"
  then have lo: "- (2 ^ 63) \<le> d" and hi: "d < 2 ^ 63" by (simp_all add: d_def)
  have "time_Sub t u = (word_of_int d :: 64 word)"
    unfolding time_Sub_def Let_def d_def [symmetric] using lo hi by simp
  then have "sint (time_Sub t u) = signed_take_bit 63 d"
    by (simp add: sint_sbintrunc')
  also have "\<dots> = d"
    using lo hi by (rule signed_take_bit_int_eq_self)
  finally show ?thesis by (simp add: d_def)
qed

lemma time_Sub_saturates:
  "sint (time_Sub t u) = max (- (2 ^ 63)) (min (2 ^ 63 - 1) (instant t - instant u))"
proof -
  define d where "d = instant t - instant u"
  define c where "c = max (- (2 ^ 63)) (min (2 ^ 63 - 1) d)"
  have lo: "- (2 ^ 63) \<le> c" and hi: "c < 2 ^ 63" by (simp_all add: c_def)
  have "(if d > 2 ^ 63 - 1 then 2 ^ 63 - 1 else if d < - (2 ^ 63) then - (2 ^ 63) else d) = c"
    by (simp add: c_def max_def min_def)
  then have "time_Sub t u = (word_of_int c :: 64 word)"
    unfolding time_Sub_def Let_def d_def [symmetric] by simp
  then have "sint (time_Sub t u) = signed_take_bit 63 c"
    by (simp add: sint_sbintrunc')
  also have "\<dots> = c"
    using lo hi by (rule signed_take_bit_int_eq_self)
  finally show ?thesis by (simp add: c_def d_def)
qed

text \<open>
  Claim C3, amended. For every alert that is rendered, the body is the sections joined by
  line feeds, in this order: the event time line, for the later of start and end (the end
  when it is after the start, otherwise the start); the labels block; a separator; the
  description block, whatever the display status; and, exactly when the end is after the
  start, a separator, the duration line for \<open>endAt.Sub(startAt)\<close>, the start line and
  the end line. The duration is the end minus the start held within the range of an int64
  of nanoseconds: the largest duration when the difference is larger. The loop yields no
  unit only when the time zone name does not resolve.
\<close>

theorem C3_body_sections:
  "case renderAlert env alert of
     Inl p \<Rightarrow> fst (LoadLocation (zoneinfo env) (Getenv env ''TZ'')) = None
   | Inr u \<Rightarrow>
       (\<exists>startAt endAt eventTime.
          alert_times env alert = Inr (startAt, endAt) \<and>
          instant startAt = instant (fst (time_Parse env (StartsAt alert))) \<and>
          instant endAt = instant (fst (time_Parse env (EndsAt alert))) \<and>
          eventTime = (if instant startAt < instant endAt then endAt else startAt) \<and>
          instant eventTime = max (instant startAt) (instant endAt) \<and>
          sint (time_Sub endAt startAt) =
            max (- (2 ^ 63)) (min (2 ^ 63 - 1) (instant endAt - instant startAt)) \<and>
          Description_embed u =
            Join ([''**'' @ alarm_clock @ '' Event Time:** '' @ time_Format env eventTime,
                   ''**'' @ label_sign @ '' Alert labels:**'' @ nl @
                     Join (alert_labels env (fst (status_color alert)) (Labels alert)) nl,
                   ''------'',
                   ''**'' @ open_book @ '' Description:**'' @ nl @
                     Join (alert_description alert) nl]
                  @ (if instant startAt < instant endAt
                     then [''------'',
                           ''**'' @ timer_clock @ '' Duration:** '' @
                             Duration_String env (time_Sub endAt startAt),
                           '': - **_Start:_** '' @ time_Format env startAt,
                           '': - **_End:_** '' @ time_Format env endAt]
                     else [])) nl)"
proof (cases "fst (LoadLocation (zoneinfo env) (Getenv env ''TZ''))")
  case None
  then show ?thesis by (simp add: renderAlert_eq)
next
  case (Some l)
  let ?s = "(fst (time_Parse env (StartsAt alert)))\<lparr>location := l\<rparr>"
  let ?e = "(fst (time_Parse env (EndsAt alert)))\<lparr>location := l\<rparr>"
  have t: "alert_times env alert = Inr (?s, ?e)"
    using Some by (simp add: alert_times_eq)
  have sat: "sint (time_Sub ?e ?s) =
               max (- (2 ^ 63)) (min (2 ^ 63 - 1) (instant ?e - instant ?s))"
    by (rule time_Sub_saturates)
  show ?thesis
    using Some t sat
    by (simp add: renderAlert_eq embedDescribe_def time_After_def Let_def max_def)
qed

lemma digit_chars:
  "char_of (48::nat) = CHR ''0''" "char_of (49::nat) = CHR ''1''" "char_of (50::nat) = CHR ''2''"
  "char_of (51::nat) = CHR ''3''" "char_of (52::nat) = CHR ''4''" "char_of (53::nat) = CHR ''5''"
  "char_of (54::nat) = CHR ''6''" "char_of (55::nat) = CHR ''7''" "char_of (56::nat) = CHR ''8''"
  "char_of (57::nat) = CHR ''9''"
  by code_simp+

lemma Itoa_a: "Itoa 63839664000 = ''63839664000''"
  by (simp add: Itoa.simps digit_chars)

lemma Itoa_b: "Itoa 63839667600 = ''63839667600''"
  by (simp add: Itoa.simps digit_chars)

lemma Itoa_c: "Itoa 3600 = ''3600''"
  by (simp add: Itoa.simps digit_chars)

lemma Itoa_d: "Itoa 0 = ''0''"
  by (simp add: Itoa.simps digit_chars)

lemmas Itoa_examples = Itoa_a Itoa_b Itoa_c Itoa_d

lemma dur_example: "nat (sint (word_of_int 3600000000000 :: 64 word) div 1000000000) = 3600"
  by simp

theorem C3_body_sections_witness:
  "\<exists>u. renderAlert (example_env [])
          (example_alert ''firing'' [(''severity'', ''critical'')]
             ''2024-01-01T00:00:00Z'' ''2024-01-01T01:00:00Z'') = Inr u \<and>
        Description_embed u =
          ''**'' @ alarm_clock @ '' Event Time:** 63839667600 UTC'' @ nl @
          ''**'' @ label_sign @ '' Alert labels:**'' @ nl @
          '': - **_severity:_** critical'' @ nl @
          '': - **_value:_** 0.00'' @ nl @
          ''------'' @ nl @
          ''**'' @ open_book @ '' Description:**'' @ nl @
          '': - disk full'' @ nl @
          ''------'' @ nl @
          ''**'' @ timer_clock @ '' Duration:** 3600s'' @ nl @
          '': - **_Start:_** 63839664000 UTC'' @ nl @
          '': - **_End:_** 63839667600 UTC''"
proof -
  let ?env = "example_env []"
  let ?a = "example_alert ''firing'' [(''severity'', ''critical'')]
             ''2024-01-01T00:00:00Z'' ''2024-01-01T01:00:00Z''"
  have loc: "fst (LoadLocation (zoneinfo ?env) (Getenv ?env ''TZ'')) = Some UTC"
    by (simp add: example_env_def LoadLocation_def)
  obtain u where u: "renderAlert ?env ?a = Inr u"
    using renderAlert_Inr [OF loc] by blast
  have t: "alert_times ?env ?a =
             Inr (\<lparr>instant = 63839664000000000000, location = UTC\<rparr>,
                  \<lparr>instant = 63839667600000000000, location = UTC\<rparr>)"
    using loc by (simp add: alert_times_eq example_env_def example_time_Parse_def example_alert_def)
  have sc: "fst (status_color ?a) = ''critical''"
    by (simp add: status_color_def example_alert_def Let_def)
  have ls: "alert_labels ?env ''critical'' (Labels ?a) =
              ['': - **_severity:_** critical'', '': - **_value:_** 0.00'']"
    by (simp add: alert_labels_def label_step_def HasPrefix_def valueConv_def example_env_def
                  example_alert_def label_line_def example_Sprintf_2f_def Itoa_examples)
  have ds: "alert_description ?a = ['': - disk full'']"
    by (simp add: alert_description_def example_alert_def)
  have f1: "time_Format ?env \<lparr>instant = 63839664000000000000, location = UTC\<rparr> = ''63839664000 UTC''"
    by (simp add: example_env_def example_time_Format_def example_location_name_def Itoa_examples)
  have f2: "time_Format ?env \<lparr>instant = 63839667600000000000, location = UTC\<rparr> = ''63839667600 UTC''"
    by (simp add: example_env_def example_time_Format_def example_location_name_def Itoa_examples)
  have du: "Duration_String ?env (time_Sub \<lparr>instant = 63839667600000000000, location = UTC\<rparr>
                                            \<lparr>instant = 63839664000000000000, location = UTC\<rparr>) = ''3600s''"
    by (simp add: example_env_def time_Sub_def dur_example Itoa_examples)
  from C3_body_sections [of ?env ?a] u t
  have "Description_embed u =
          Join ([''**'' @ alarm_clock @ '' Event Time:** '' @ ''63839667600 UTC'',
                 ''**'' @ label_sign @ '' Alert labels:**'' @ nl @
                   Join ['': - **_severity:_** critical'', '': - **_value:_** 0.00''] nl,
                 ''------'',
                 ''**'' @ open_book @ '' Description:**'' @ nl @ Join ['': - disk full''] nl,
                 ''------'',
                 ''**'' @ timer_clock @ '' Duration:** '' @ ''3600s'',
                 '': - **_Start:_** '' @ ''63839664000 UTC'',
                 '': - **_End:_** '' @ ''63839667600 UTC'']) nl"
    by (simp add: sc ls ds f1 f2 du)
  then have "Description_embed u =
          ''**'' @ alarm_clock @ '' Event Time:** 63839667600 UTC'' @ nl @
          ''**'' @ label_sign @ '' Alert labels:**'' @ nl @
          '': - **_severity:_** critical'' @ nl @
          '': - **_value:_** 0.00'' @ nl @
          ''------'' @ nl @
          ''**'' @ open_book @ '' Description:**'' @ nl @
          '': - disk full'' @ nl @
          ''------'' @ nl @
          ''**'' @ timer_clock @ '' Duration:** 3600s'' @ nl @
          '': - **_Start:_** 63839664000 UTC'' @ nl @
          '': - **_End:_** 63839667600 UTC''"
    by simp
  with u show ?thesis by blast
qed

lemma Itoa_e: "Itoa 9223372036 = ''9223372036''"
  by (simp add: Itoa.simps digit_chars)

lemma sat_example:
  "time_Sub \<lparr>instant = 63839664000000000000, location = UTC\<rparr> \<lparr>instant = 0, location = UTC\<rparr>
     = (word_of_int 9223372036854775807 :: 64 word)"
  by (simp add: time_Sub_def)

lemma sat_seconds:
  "nat (sint (word_of_int 9223372036854775807 :: 64 word) div 1000000000) = 9223372036"
  by simp

text \<open>
  Claim C3 as stated says the duration line is the end minus the start. For a start that
  does not parse (the zero time) and an end in 2024 the end is after the start, the
  duration block is there, and the duration is the largest one an int64 of nanoseconds
  holds (9223372036 seconds), not the 63839664000 seconds between the two instants.
\<close>

theorem C3_duration_saturates_counterexample:
  "renderAlert (example_env ''UTC'')
     (example_alert ''resolved'' [] ''not a time'' ''2024-01-01T00:00:00Z'') =
     Inr \<lparr>Title = ''[NORMAL] Disk'',
          Description_embed =
            ''**'' @ alarm_clock @ '' Event Time:** 63839664000 UTC'' @ nl @
            ''**'' @ label_sign @ '' Alert labels:**'' @ nl @ nl @
            ''------'' @ nl @
            ''**'' @ open_book @ '' Description:**'' @ nl @
            '': - disk full'' @ nl @
            ''------'' @ nl @
            ''**'' @ timer_clock @ '' Duration:** 9223372036s'' @ nl @
            '': - **_Start:_** 0 UTC'' @ nl @
            '': - **_End:_** 63839664000 UTC'',
          Color = ColorGreen, Fields = []\<rparr> \<and>
   alert_times (example_env ''UTC'')
     (example_alert ''resolved'' [] ''not a time'' ''2024-01-01T00:00:00Z'') =
     Inr (\<lparr>instant = 0, location = UTC\<rparr>,
          \<lparr>instant = 63839664000000000000, location = UTC\<rparr>) \<and>
   sint (time_Sub \<lparr>instant = 63839664000000000000, location = UTC\<rparr>
                  \<lparr>instant = 0, location = UTC\<rparr>) = 9223372036854775807 \<and>
   sint (time_Sub \<lparr>instant = 63839664000000000000, location = UTC\<rparr>
                  \<lparr>instant = 0, location = UTC\<rparr>) \<noteq>
     instant \<lparr>instant = 63839664000000000000, location = UTC\<rparr> -
     instant \<lparr>instant = 0, location = UTC\<rparr>"
proof -
  let ?env = "example_env ''UTC''"
  let ?a = "example_alert ''resolved'' [] ''not a time'' ''2024-01-01T00:00:00Z''"
  let ?s = "\<lparr>instant = 0, location = UTC\<rparr>"
  let ?e = "\<lparr>instant = 63839664000000000000, location = UTC\<rparr>"
  have tp: "fst (time_Parse ?env (StartsAt ?a))\<lparr>location := UTC\<rparr> = ?s"
           "fst (time_Parse ?env (EndsAt ?a))\<lparr>location := UTC\<rparr> = ?e"
    by (simp_all add: example_env_def example_time_Parse_def example_alert_def zeroTime_def)
  have t: "alert_times ?env ?a = Inr (?s, ?e)"
    by (simp add: alert_times_eq example_env_UTC tp)
  have sc: "status_color ?a = (''normal'', ColorGreen)"
    by (simp add: status_color_def example_alert_def)
  have ls: "alert_labels ?env ''normal'' (Labels ?a) = []"
    by (simp add: alert_labels_def example_alert_def)
  have ds: "alert_description ?a = ['': - disk full'']"
    by (simp add: alert_description_def example_alert_def)
  have f1: "time_Format ?env ?s = ''0 UTC''"
    by (simp add: example_env_def example_time_Format_def example_location_name_def Itoa_examples)
  have f2: "time_Format ?env ?e = ''63839664000 UTC''"
    by (simp add: example_env_def example_time_Format_def example_location_name_def Itoa_examples)
  have du: "Duration_String ?env (time_Sub ?e ?s) = ''9223372036s''"
    unfolding sat_example by (simp add: example_env_def sat_seconds Itoa_e)
  have su: "Summary (Annotations ?a) = ''Disk''" by (simp add: example_alert_def)
  have r: "renderAlert ?env ?a =
     Inr \<lparr>Title = ''[NORMAL] Disk'',
          Description_embed =
            ''**'' @ alarm_clock @ '' Event Time:** 63839664000 UTC'' @ nl @
            ''**'' @ label_sign @ '' Alert labels:**'' @ nl @ nl @
            ''------'' @ nl @
            ''**'' @ open_book @ '' Description:**'' @ nl @
            '': - disk full'' @ nl @
            ''------'' @ nl @
            ''**'' @ timer_clock @ '' Duration:** 9223372036s'' @ nl @
            '': - **_Start:_** 0 UTC'' @ nl @
            '': - **_End:_** 63839664000 UTC'',
          Color = ColorGreen, Fields = []\<rparr>"
    by (simp add: renderAlert_eq example_env_UTC tp sc ls ds su ToUpper_normal
                  embedDescribe_def time_After_def Let_def f1 f2 du)
  have v: "sint (time_Sub ?e ?s) = 9223372036854775807"
    unfolding sat_example by simp
  show ?thesis
    using r t v by simp
qed

subsection \<open>The renderer: timestamps and the time zone\<close>

lemma LoadLocation_resolves:
  "name = [] \<or> name = ''UTC'' \<or> name = ''Local'' \<or> db name \<noteq> None \<Longrightarrow>
   fst (LoadLocation db name) =
     Some (if name = [] \<or> name = ''UTC'' then UTC
           else if name = ''Local'' then Local
           else the (db name))"
  by (auto simp: LoadLocation_def split: option.splits)

text \<open>
  Claim C5, amended. Let \<open>time.Parse\<close> return the zero time with every error, as it does,
  and let the time zone name of the environment resolve: it is empty or "UTC" (both give
  UTC), "Local" (the system's zone), or a name the time zone database knows. Then every
  alert is rendered, and both timestamps are their parsed values displayed in the
  resolved location, the zero time for a string that fails to parse.
\<close>

theorem C5_timestamps_and_zone:
  assumes zero_on_error: "\<forall>s. snd (time_Parse env s) \<noteq> None \<longrightarrow> fst (time_Parse env s) = zeroTime"
      and resolves: "Getenv env ''TZ'' = [] \<or> Getenv env ''TZ'' = ''UTC'' \<or>
                     Getenv env ''TZ'' = ''Local'' \<or> zoneinfo env (Getenv env ''TZ'') \<noteq> None"
  shows "\<exists>u startAt endAt l.
           renderAlert env alert = Inr u \<and>
           alert_times env alert = Inr (startAt, endAt) \<and>
           fst (LoadLocation (zoneinfo env) (Getenv env ''TZ'')) = Some l \<and>
           l = (if Getenv env ''TZ'' = [] \<or> Getenv env ''TZ'' = ''UTC'' then UTC
                else if Getenv env ''TZ'' = ''Local'' then Local
                else the (zoneinfo env (Getenv env ''TZ''))) \<and>
           startAt = (fst (time_Parse env (StartsAt alert)))\<lparr>location := l\<rparr> \<and>
           endAt = (fst (time_Parse env (EndsAt alert)))\<lparr>location := l\<rparr> \<and>
           (snd (time_Parse env (StartsAt alert)) \<noteq> None \<longrightarrow> startAt = zeroTime\<lparr>location := l\<rparr>) \<and>
           (snd (time_Parse env (EndsAt alert)) \<noteq> None \<longrightarrow> endAt = zeroTime\<lparr>location := l\<rparr>)"
proof -
  define l where "l = (if Getenv env ''TZ'' = [] \<or> Getenv env ''TZ'' = ''UTC'' then UTC
                else if Getenv env ''TZ'' = ''Local'' then Local
                else the (zoneinfo env (Getenv env ''TZ'')))"
  have loc: "fst (LoadLocation (zoneinfo env) (Getenv env ''TZ'')) = Some l"
    unfolding l_def
    using resolves by (rule LoadLocation_resolves [of "Getenv env ''TZ''" "zoneinfo env"])
  obtain u where u: "renderAlert env alert = Inr u"
    using renderAlert_Inr [OF loc] by blast
  let ?s = "(fst (time_Parse env (StartsAt alert)))\<lparr>location := l\<rparr>"
  let ?e = "(fst (time_Parse env (EndsAt alert)))\<lparr>location := l\<rparr>"
  have t: "alert_times env alert = Inr (?s, ?e)"
    using loc by (simp add: alert_times_eq)
  have zs: "snd (time_Parse env (StartsAt alert)) \<noteq> None \<longrightarrow> ?s = zeroTime\<lparr>location := l\<rparr>"
    using zero_on_error by simp
  have ze: "snd (time_Parse env (EndsAt alert)) \<noteq> None \<longrightarrow> ?e = zeroTime\<lparr>location := l\<rparr>"
    using zero_on_error by simp
  show ?thesis
    by (intro exI conjI) (rule u t loc l_def refl zs ze)+
qed

lemma example_time_Parse_zero:
  "\<forall>s. snd (time_Parse (example_env tz) s) \<noteq> None \<longrightarrow> fst (time_Parse (example_env tz) s) = zeroTime"
  by (simp add: example_env_def example_time_Parse_def)

theorem C5_timestamps_and_zone_witness:
  "\<exists>u. renderAlert (example_env ''Asia/Bangkok'')
          (example_alert ''firing'' [] ''not a time'' ''2024-01-01T00:00:00Z'') = Inr u \<and>
        alert_times (example_env ''Asia/Bangkok'')
          (example_alert ''firing'' [] ''not a time'' ''2024-01-01T00:00:00Z'') =
          Inr (\<lparr>instant = 0, location = Zone ''Asia/Bangkok''\<rparr>,
               \<lparr>instant = 63839664000000000000, location = Zone ''Asia/Bangkok''\<rparr>)"
proof -
  let ?env = "example_env ''Asia/Bangkok''"
  let ?a = "example_alert ''firing'' [] ''not a time'' ''2024-01-01T00:00:00Z''"
  have r: "Getenv ?env ''TZ'' = [] \<or> Getenv ?env ''TZ'' = ''UTC'' \<or>
           Getenv ?env ''TZ'' = ''Local'' \<or> zoneinfo ?env (Getenv ?env ''TZ'') \<noteq> None"
    by (simp add: example_env_def)
  from C5_timestamps_and_zone [OF example_time_Parse_zero r, of ?a]
  obtain u startAt endAt l where
    u: "renderAlert ?env ?a = Inr u" and
    t: "alert_times ?env ?a = Inr (startAt, endAt)" and
    l: "l = (if Getenv ?env ''TZ'' = [] \<or> Getenv ?env ''TZ'' = ''UTC'' then UTC
                else if Getenv ?env ''TZ'' = ''Local'' then Local
                else the (zoneinfo ?env (Getenv ?env ''TZ'')))" and
    s: "snd (time_Parse ?env (StartsAt ?a)) \<noteq> None \<longrightarrow> startAt = zeroTime\<lparr>location := l\<rparr>" and
    e: "endAt = (fst (time_Parse ?env (EndsAt ?a)))\<lparr>location := l\<rparr>"
    by blast
  have l': "l = Zone ''Asia/Bangkok''" using l by (simp add: example_env_def)
  have s': "startAt = \<lparr>instant = 0, location = Zone ''Asia/Bangkok''\<rparr>"
    using s l' by (simp add: example_env_def example_time_Parse_def example_alert_def zeroTime_def)
  have e': "endAt = \<lparr>instant = 63839664000000000000, location = Zone ''Asia/Bangkok''\<rparr>"
    using e l' by (simp add: example_env_def example_time_Parse_def example_alert_def)
  from u t s' e' show ?thesis by simp
qed

text \<open>
  Claim C5 as stated says that an empty time zone name falls back to the local system
  time zone. With TZ unset (\<open>os.Getenv\<close> gives the empty string) the timestamps are
  displayed in UTC, not in the location Local that the name "Local" gives: on a host
  whose zone is not UTC the two are displayed differently.
\<close>

theorem C5_empty_zone_name_counterexample:
  "Getenv (example_env []) ''TZ'' = [] \<and>
   alert_times (example_env [])
     (example_alert ''firing'' [] ''2024-01-01T00:00:00Z'' ''2024-01-01T01:00:00Z'') =
     Inr (\<lparr>instant = 63839664000000000000, location = UTC\<rparr>,
          \<lparr>instant = 63839667600000000000, location = UTC\<rparr>) \<and>
   alert_times (example_env ''Local'')
     (example_alert ''firing'' [] ''2024-01-01T00:00:00Z'' ''2024-01-01T01:00:00Z'') =
     Inr (\<lparr>instant = 63839664000000000000, location = Local\<rparr>,
          \<lparr>instant = 63839667600000000000, location = Local\<rparr>) \<and>
   alert_times (example_env [])
     (example_alert ''firing'' [] ''2024-01-01T00:00:00Z'' ''2024-01-01T01:00:00Z'') \<noteq>
   alert_times (example_env ''Local'')
     (example_alert ''firing'' [] ''2024-01-01T00:00:00Z'' ''2024-01-01T01:00:00Z'')"
  by (simp add: alert_times_eq LoadLocation_def example_env_def example_time_Parse_def
                example_alert_def)

subsection \<open>The batcher\<close>

declare chunks.simps [simp del]

declare bulk_send.simps [simp del]

lemma chunks_Nil: "chunks n [] = []"
  by (simp add: chunks.simps)

lemma chunks_step: "0 < n \<Longrightarrow> xs \<noteq> [] \<Longrightarrow> chunks n xs = take n xs # chunks n (drop n xs)"
  by (subst chunks.simps) simp

lemma chunks_zero: "chunks 0 xs = []"
  by (simp add: chunks.simps)

lemma concat_chunks: "concat (chunks n xs) = (if n = 0 then [] else xs)"
proof (induction n xs rule: chunks.induct)
  case (1 n xs)
  show ?case
  proof (cases "n = 0 \<or> xs = []")
    case True
    then show ?thesis by (auto simp: chunks_Nil chunks_zero)
  next
    case False
    with 1 show ?thesis by (simp add: chunks_step)
  qed
qed

lemma length_chunks: "0 < n \<Longrightarrow> length (chunks n xs) = (length xs + n - 1) div n"
proof (induction n xs rule: chunks.induct)
  case (1 n xs)
  show ?case
  proof (cases "xs = []")
    case True
    with "1.prems" show ?thesis by (simp add: chunks_Nil)
  next
    case False
    with "1.prems" have ih: "length (chunks n (drop n xs)) = (length (drop n xs) + n - 1) div n"
      using "1.IH" by simp
    have "length (chunks n xs) = Suc (length (chunks n (drop n xs)))"
      using False "1.prems" by (simp add: chunks_step)
    also have "\<dots> = Suc ((length xs - n + n - 1) div n)" using ih by simp
    also have "\<dots> = (length xs + n - 1) div n"
    proof (cases "n \<le> length xs")
      case True
      then have "(length xs + n - 1) = (length xs - 1) + 1 * n" using "1.prems" False by (cases xs) auto
      moreover have "length xs - n + n - 1 = length xs - 1" using True by simp
      ultimately show ?thesis using "1.prems" 
        by (metis Suc_eq_plus1 div_mult_self1 nat_neq_iff add.commute mult_1)
    next
      case False2: False
      then have "length xs - n + n - 1 = n - 1" by simp
      moreover have "(length xs + n - 1) div n = 1"
        using False2 False "1.prems" by (cases xs) (auto simp: div_nat_eqI)
      ultimately show ?thesis using "1.prems" by simp
    qed
    finally show ?thesis .
  qed
qed

lemma nth_chunks: "j < length (chunks n xs) \<Longrightarrow> chunks n xs ! j = take n (drop (n * j) xs)"
proof (induction n xs arbitrary: j rule: chunks.induct)
  case (1 n xs)
  show ?case
  proof (cases "n = 0 \<or> xs = []")
    case True
    with "1.prems" show ?thesis by (auto simp: chunks_Nil chunks_zero)
  next
    case False
    show ?thesis
    proof (cases j)
      case 0
      with False show ?thesis by (simp add: chunks_step)
    next
      case (Suc k)
      with False "1.prems" have "k < length (chunks n (drop n xs))" by (simp add: chunks_step)
      with "1.IH" False have "chunks n (drop n xs) ! k = take n (drop (n * k) (drop n xs))" by simp
      with False Suc show ?thesis by (simp add: chunks_step add.commute)
    qed
  qed
qed

lemma length_chunk_le: "c \<in> set (chunks n xs) \<Longrightarrow> length c \<le> n"
proof (induction n xs rule: chunks.induct)
  case (1 n xs)
  show ?case
  proof (cases "n = 0 \<or> xs = []")
    case True
    with "1.prems" show ?thesis by (auto simp: chunks_Nil chunks_zero)
  next
    case False
    with 1 show ?thesis by (auto simp: chunks_step)
  qed
qed

lemma chunks_short: "xs \<noteq> [] \<Longrightarrow> length xs \<le> n \<Longrightarrow> chunks n xs = [xs]"
proof -
  assume ne: "xs \<noteq> []" and le: "length xs \<le> n"
  then have "0 < n" by (cases xs) auto
  from chunks_step [OF this ne] le show ?thesis by (simp add: chunks_Nil)
qed

lemma posts_fireMessageOut: "posts (fireMessageOut env w msg) = posts w @ [msg]"
  by (simp add: fireMessageOut_def Let_def split: post_result.splits)

lemma posts_bulk_send:
  "posts (bulk_send env embs i DO w) =
     posts w @ map (\<lambda>c. DO\<lparr>Embeds := c\<rparr>) (chunks MaxDiscordEmbed (drop i embs))"
proof (induction env embs i DO w rule: bulk_send.induct)
  case (1 env embs i DO w)
  show ?case
  proof (cases "i < length embs")
    case False
    then show ?thesis by (simp add: bulk_send.simps chunks_Nil)
  next
    case True
    define DO' where "DO' = DO\<lparr>Embeds := take MaxDiscordEmbed (drop i embs)\<rparr>"
    have same: "(if i + MaxDiscordEmbed \<le> length embs
                 then DO\<lparr>Embeds := take MaxDiscordEmbed (drop i embs)\<rparr>
                 else DO\<lparr>Embeds := drop i embs\<rparr>) = DO'"
      by (simp add: DO'_def)
    have step: "bulk_send env embs i DO w =
                  bulk_send env embs (i + MaxDiscordEmbed) DO' (fireMessageOut env w DO')"
      using True same by (subst bulk_send.simps) (simp add: Let_def)
    have ih: "posts (bulk_send env embs (i + MaxDiscordEmbed) DO' (fireMessageOut env w DO')) =
                posts (fireMessageOut env w DO') @
                map (\<lambda>c. DO'\<lparr>Embeds := c\<rparr>) (chunks MaxDiscordEmbed (drop (i + MaxDiscordEmbed) embs))"
      using "1.IH" [OF True same [symmetric]] .
    have unf: "chunks MaxDiscordEmbed (drop i embs) =
                 take MaxDiscordEmbed (drop i embs) #
                 chunks MaxDiscordEmbed (drop (i + MaxDiscordEmbed) embs)"
      using True by (simp add: chunks_step MaxDiscordEmbed_def add.commute)
    show ?thesis
      unfolding step ih unf by (simp add: posts_fireMessageOut DO'_def)
  qed
qed

lemma posts_send_embeds:
  "posts (send_embeds env w DO embs) =
     posts w @ (if embs = [] then [DO\<lparr>Embeds := []\<rparr>]
                else map (\<lambda>c. DO\<lparr>Embeds := c\<rparr>) (chunks MaxDiscordEmbed embs))"
proof (cases "length embs > MaxDiscordEmbed")
  case True
  then have "embs \<noteq> []" by auto
  with True show ?thesis by (simp add: send_embeds_def posts_bulk_send)
next
  case False
  then show ?thesis
    by (cases "embs = []") (simp_all add: send_embeds_def posts_fireMessageOut chunks_short)
qed

text \<open>
  Claim C1. When the alerts of a group render to the units \<open>us\<close>, \<open>sendWebhook\<close> POSTs
  \<open>ceil(length us / 10)\<close> messages, and exactly one message with no unit when there
  is no unit; message \<open>j\<close> holds the run of at most 10 units that starts at unit
  \<open>10 * j\<close>, in the original order; the runs concatenated are \<open>us\<close>; and every message
  carries the header line "=== Alert: <receiver> - <alertname> ===".
\<close>

theorem C1_batcher:
  assumes "render_all env (Alerts amo) = Inr us"
  shows "\<exists>w' msgs.
           sendWebhook env w amo = Inr w' \<and> posts w' = posts w @ msgs \<and>
           length msgs = (if us = [] then 1 else (length us + 9) div 10) \<and>
           (us = [] \<longrightarrow> map Embeds msgs = [[]]) \<and>
           (\<forall>m \<in> set msgs. length (Embeds m) \<le> 10) \<and>
           (\<forall>j < length msgs. Embeds (msgs ! j) = take 10 (drop (10 * j) us)) \<and>
           concat (map Embeds msgs) = us \<and>
           (\<forall>m \<in> set msgs. Content m =
              ''=== Alert: '' @ Receiver amo @ '' - '' @ GroupLabels_Alertname amo @ '' ==='')"
proof -
  define DO where "DO = \<lparr>Content = header_line amo, Embeds = []\<rparr>"
  define msgs where "msgs = (if us = [] then [DO\<lparr>Embeds := []\<rparr>]
                else map (\<lambda>c. DO\<lparr>Embeds := c\<rparr>) (chunks MaxDiscordEmbed us))"
  have run: "sendWebhook env w amo = Inr (send_embeds env w DO us)"
    using assms by (simp add: sendWebhook_def DO_def)
  have p: "posts (send_embeds env w DO us) = posts w @ msgs"
    by (simp add: posts_send_embeds msgs_def)
  have emb: "map Embeds msgs = (if us = [] then [[]] else chunks 10 us)"
    by (simp add: msgs_def MaxDiscordEmbed_def comp_def)
  have len: "length msgs = (if us = [] then 1 else (length us + 9) div 10)"
    using arg_cong [OF emb, of length] by (simp add: length_chunks add.commute)
  have nonempty: "us = [] \<longrightarrow> map Embeds msgs = [[]]"
    using emb by simp
  have small: "\<forall>m \<in> set msgs. length (Embeds m) \<le> 10"
  proof -
    have "\<forall>c \<in> set (map Embeds msgs). length c \<le> 10"
      unfolding emb using length_chunk_le [of _ 10 us] by auto
    then show ?thesis by simp
  qed
  have runs: "\<forall>j < length msgs. Embeds (msgs ! j) = take 10 (drop (10 * j) us)"
  proof -
    have "Embeds (msgs ! j) = take 10 (drop (10 * j) us)" if "j < length msgs" for j
    proof -
      have "Embeds (msgs ! j) = map Embeds msgs ! j" using that by simp
      also have "\<dots> = take 10 (drop (10 * j) us)"
      proof (cases "us = []")
        case True
        then show ?thesis using that len emb by simp
      next
        case False
        then have "j < length (chunks 10 us)" using that arg_cong [OF emb, of length] by simp
        then show ?thesis using False emb by (simp add: nth_chunks)
      qed
      finally show ?thesis .
    qed
    then show ?thesis by simp
  qed
  have cat: "concat (map Embeds msgs) = us"
    unfolding emb by (simp add: concat_chunks)
  have hdr: "\<forall>m \<in> set msgs. Content m =
              ''=== Alert: '' @ Receiver amo @ '' - '' @ GroupLabels_Alertname amo @ '' ===''"
    by (auto simp: msgs_def DO_def header_line_def)
  show ?thesis
    by (intro exI conjI) (rule run p len nonempty small runs cat hdr)+
qed

theorem C1_batcher_witness:
  "\<exists>w' msgs.
     sendWebhook (example_env ''UTC'') empty_world
       (example_group (replicate 25 (example_alert ''firing'' [] [] []))) = Inr w' \<and>
     posts w' = msgs \<and> length msgs = 3 \<and>
     map (\<lambda>m. length (Embeds m)) msgs = [10, 10, 5] \<and>
     map Content msgs = replicate 3 ''=== Alert: discord - DiskFull ===''"
proof -
  let ?env = "example_env ''UTC''"
  let ?a = "example_alert ''firing'' [] [] []"
  let ?amo = "example_group (replicate 25 ?a)"
  obtain e where e: "renderAlert ?env ?a = Inr e"
    using renderAlert_Inr [OF example_env_UTC] by blast
  have r: "render_all ?env (Alerts ?amo) = Inr (replicate 25 e)"
    using render_all_replicate [OF e] by (simp add: example_group_def)
  from C1_batcher [OF r, of empty_world]
  obtain w' msgs where
    run: "sendWebhook ?env empty_world ?amo = Inr w'" and
    p: "posts w' = posts empty_world @ msgs" and
    len: "length msgs = (if replicate 25 e = [] then 1 else (length (replicate 25 e) + 9) div 10)" and
    runs: "\<forall>j < length msgs. Embeds (msgs ! j) = take 10 (drop (10 * j) (replicate 25 e))" and
    hdr: "\<forall>m \<in> set msgs. Content m =
            ''=== Alert: '' @ Receiver ?amo @ '' - '' @ GroupLabels_Alertname ?amo @ '' ===''"
    by blast
  have l3: "length msgs = 3" using len by simp
  then obtain m0 m1 m2 where ms: "msgs = [m0, m1, m2]"
    by (auto simp: length_Suc_conv numeral_3_eq_3)
  have lens: "map (\<lambda>m. length (Embeds m)) msgs = [10, 10, 5]"
    using runs [rule_format, of 0] runs [rule_format, of 1] runs [rule_format, of 2]
    by (simp add: ms)
  have cs: "map Content msgs = replicate 3 ''=== Alert: discord - DiskFull ===''"
    using hdr by (simp add: ms example_group_def numeral_3_eq_3)
  have p': "posts w' = msgs" using p by (simp add: empty_world_def)
  show ?thesis
    by (intro exI conjI) (rule run p' l3 lens cs)+
qed

subsection \<open>The delivery client\<close>






subsection \<open>The handler\<close>

lemma unpack_failure_line_long:
  "1024 < length b \<Longrightarrow>
   unpack_failure_line b = ''Failed to unpack inbound alert request - '' @ take 1023 b @ ''...''"
  by (simp add: unpack_failure_line_def)

lemma unpack_failure_line_short:
  "length b \<le> 1024 \<Longrightarrow>
   unpack_failure_line b = ''Failed to unpack inbound alert request - '' @ b"
  by (simp add: unpack_failure_line_def)

lemma handler_unparseable:
  assumes "Body r = (b, None)" and "json_Unmarshal env b = (amo, Some err)"
      and "\<not> isRawPromAlert env b" and "\<not> debug_flag env"
  shows "handler env rw w r =
           (rw, w\<lparr>logs := logs w @ [Host r @ '' - ['' @ Method r @ ''] '' @ URL r,
                                     unpack_failure_line b]\<rparr>, Returned)"
  using assms by (simp add: handler_def Let_def)

lemma example_json_Unmarshal_long:
  "18 < length b \<Longrightarrow> example_json_Unmarshal b = (example_group [], Some ''invalid character'')"
  by (auto simp: example_json_Unmarshal_def)

lemma example_isRawPromAlert_long:
  "25 < length b \<Longrightarrow> \<not> isRawPromAlert (example_env tz) b"
  by (auto simp: example_env_def)

text \<open>
  Claim C6 at a body of 1025 bytes that is neither an alert group nor a raw Prometheus
  alert: the handler returns, nothing is posted, and the line logged holds the first
  1023 bytes of the body and the ellipsis, one byte short of the first 1024.
\<close>

theorem C6_logged_prefix_is_1023_bytes:
  "handler (example_env []) \<lparr>status_written = None, body_written = []\<rparr> empty_world
     \<lparr>Host = ''relay'', Method = ''POST'', URL = ''/'',
      Body = (replicate 1025 (CHR ''x''), None)\<rparr> =
     (\<lparr>status_written = None, body_written = []\<rparr>,
      \<lparr>posts = [],
       logs = [''relay - [POST] /'',
               ''Failed to unpack inbound alert request - '' @ replicate 1023 (CHR ''x'') @ ''...''],
       stdout = []\<rparr>,
      Returned) \<and>
   length (replicate 1023 (CHR ''x'')) = 1023 \<and>
   replicate 1023 (CHR ''x'') \<noteq> take 1024 (replicate 1025 (CHR ''x''))"
proof -
  let ?b = "replicate 1025 (CHR ''x'')"
  let ?r = "\<lparr>Host = ''relay'', Method = ''POST'', URL = ''/'', Body = (?b, None)\<rparr>"
  have j: "json_Unmarshal (example_env []) ?b = (example_group [], Some ''invalid character'')"
    using example_json_Unmarshal_long [of ?b] by (simp add: example_env_def)
  have n: "\<not> isRawPromAlert (example_env []) ?b"
    using example_isRawPromAlert_long [of ?b] by simp
  have d: "\<not> debug_flag (example_env [])" by (simp add: example_env_def)
  have h: "handler (example_env []) \<lparr>status_written = None, body_written = []\<rparr> empty_world ?r =
             (\<lparr>status_written = None, body_written = []\<rparr>,
              empty_world\<lparr>logs := logs empty_world @
                 [Host ?r @ '' - ['' @ Method ?r @ ''] '' @ URL ?r, unpack_failure_line ?b]\<rparr>,
              Returned)"
    by (rule handler_unparseable [OF _ j n d]) simp
  have u: "unpack_failure_line ?b =
             ''Failed to unpack inbound alert request - '' @ replicate 1023 (CHR ''x'') @ ''...''"
    using unpack_failure_line_long [of ?b] by simp
  have ne: "replicate 1023 (CHR ''x'') \<noteq> take 1024 (replicate 1025 (CHR ''x''))"
  proof
    assume "replicate 1023 (CHR ''x'') = take 1024 (replicate 1025 (CHR ''x''))"
    then have "length (replicate 1023 (CHR ''x'')) = length (take 1024 (replicate 1025 (CHR ''x'')))"
      by (rule arg_cong)
    then show False by simp
  qed
  show ?thesis
    unfolding h u using ne by (simp add: empty_world_def)
qed

lemma handler_keeps_ResponseWriter: "fst (handler env rw w r) = rw"
  by (simp add: handler_def Let_def split: prod.splits option.splits sum.splits)

lemma serve_eq:
  "serve env w r =
     (case Body r of
        (b, Some err) \<Rightarrow> None
      | (b, None) \<Rightarrow>
          (case json_Unmarshal env b of
             (amo, Some err) \<Rightarrow> Some (200, [])
           | (amo, None) \<Rightarrow>
               (case render_all env (Alerts amo) of
                  Inl p \<Rightarrow> None
                | Inr embs \<Rightarrow> Some (200, []))))"
  by (auto simp: serve_def handler_def sendWebhook_def Let_def
           split: prod.splits option.splits sum.splits)

lemma serve_Some: "serve env w r = Some (c, b) \<Longrightarrow> c = 200 \<and> b = []"
  by (auto simp: serve_eq split: prod.splits option.splits sum.splits)

lemma serve_undecodable:
  "Body r = (b, None) \<Longrightarrow> json_Unmarshal env b = (amo, Some err) \<Longrightarrow>
   serve env w r = Some (200, [])"
  by (simp add: serve_eq)

lemma serve_decoded:
  "Body r = (b, None) \<Longrightarrow> json_Unmarshal env b = (amo, None) \<Longrightarrow>
   fst (LoadLocation (zoneinfo env) (Getenv env ''TZ'')) = Some l \<Longrightarrow>
   serve env w r = Some (200, [])"
proof -
  assume l: "fst (LoadLocation (zoneinfo env) (Getenv env ''TZ'')) = Some l"
  have "\<exists>us. render_all env as = Inr us" for as
  proof (induction as)
    case Nil
    show ?case by simp
  next
    case (Cons a as)
    then obtain us where "render_all env as = Inr us" by blast
    moreover obtain u where "renderAlert env a = Inr u"
      using renderAlert_Inr [OF l] by blast
    ultimately show ?case by simp
  qed
  then obtain us where "render_all env (Alerts amo) = Inr us" by blast
  moreover assume "Body r = (b, None)" and "json_Unmarshal env b = (amo, None)"
  ultimately show ?thesis by (simp add: serve_eq)
qed

lemma serve_read_failure: "Body r = (b, Some err) \<Longrightarrow> serve env w r = None"
  by (simp add: serve_eq)

lemma example_env_unresolved:
  "fst (LoadLocation (zoneinfo (example_env ''Mars/Olympus'')) (Getenv (example_env ''Mars/Olympus'') ''TZ'')) = None"
  by (simp add: example_env_def LoadLocation_def)

text \<open>
  Claim C8 at a request that decodes to a group of one alert: with a time zone name that
  does not resolve the handler panics and the caller gets no response, where the same
  request under TZ=UTC gets status 200 with an empty body.
\<close>

theorem C8_no_response_when_zone_unknown:
  "serve (example_env ''Mars/Olympus'') empty_world
     \<lparr>Host = ''relay'', Method = ''POST'', URL = ''/'', Body = (''{one firing alert}'', None)\<rparr> = None \<and>
   serve (example_env ''UTC'') empty_world
     \<lparr>Host = ''relay'', Method = ''POST'', URL = ''/'', Body = (''{one firing alert}'', None)\<rparr> =
     Some (200, [])"
proof -
  let ?a = "example_alert ''firing'' [(''severity'', ''critical'')]
              ''2024-01-01T00:00:00Z'' ''0001-01-01T00:00:00Z''"
  have bad: "renderAlert (example_env ''Mars/Olympus'') ?a = Inl MissingLocation"
    by (simp add: renderAlert_eq example_env_unresolved)
  obtain u where good: "renderAlert (example_env ''UTC'') ?a = Inr u"
    using renderAlert_Inr [OF example_env_UTC] by blast
  have j: "json_Unmarshal (example_env tz) ''{one firing alert}'' = (example_group [?a], None)" for tz
    by (simp add: example_env_def example_json_Unmarshal_def)
  show ?thesis
    by (simp add: serve_eq j example_group_def bad good)
qed

end
